theory Spec2Isabelle
  imports Complex_Main "HOL-Library.Word"
begin

section \<open>Python values, exceptions and the foreign boundary\<close>

text \<open>
  The modules embedded here are \<^verbatim>\<open>backend/tensor.py\<close>, \<^verbatim>\<open>backend/ops.py\<close> and
  \<^verbatim>\<open>backend/qmatmul.py\<close>. An exception is a value of \<open>py_error\<close>; a function that
  may raise returns \<open>py_error + 'a\<close>, with \<open>Inl\<close> for the exception. The text of an
  f-string is kept as its parts: the literal pieces and the tuples formatted into it.
\<close>

datatype fpart = Lit string | Tup "int list"

datatype py_error =
    NameError string
  | ValueError string
  | RuntimeError "fpart list"
  | IndexError
  | TypeError string
  | AttributeError string
  | ForeignError string

text \<open>
  \<^verbatim>\<open>xs[i]\<close> and \<^verbatim>\<open>xs[i] = v\<close> on a Python list: a negative index counts from the
  end, an index out of range raises \<open>IndexError\<close>.
\<close>

definition py_getitem :: "'a list \<Rightarrow> int \<Rightarrow> py_error + 'a" where
  "py_getitem xs i =
     (let n = int (length xs); j = (if i < 0 then i + n else i)
      in if 0 \<le> j \<and> j < n then Inr (xs ! nat j) else Inl IndexError)"

definition py_setitem :: "'a list \<Rightarrow> int \<Rightarrow> 'a \<Rightarrow> py_error + 'a list" where
  "py_setitem xs i v =
     (let n = int (length xs); j = (if i < 0 then i + n else i)
      in if 0 \<le> j \<and> j < n then Inr (xs[nat j := v]) else Inl IndexError)"

text \<open>
  A factory (\<^verbatim>\<open>NNFactory\<close>) is known by its object identity: the set comprehension
  of \<^verbatim>\<open>__generate_op\<close> compares factories by identity. A node is the
  \<^verbatim>\<open>ctypes\<close> pointer the backend hands out; the host never looks inside it.
\<close>

type_synonym factory_id = nat
type_synonym node_ref = nat

datatype dtype =
    np_bool | bfloat16 | float16 | float32 | float64
  | int4 | int8 | int16 | int32 | int64

text \<open>The extra arguments the operators pass on: an axis, or a list of axes.\<close>

datatype py_value = PyInt int | PyList "int list"

text \<open>
  The calls that cross the foreign boundary to a factory: \<^verbatim>\<open>factory.parameter(shape, dtype)\<close>
  and \<^verbatim>\<open>factory.__getattribute__(op)(*nodes, *args, **kwargs)\<close>. The trace is the list of
  these calls in the order they were made; a function of the model that makes no such
  call returns the trace it was given.
\<close>

datatype foreign_call =
    Parameter factory_id "int list" dtype
  | FactoryOp factory_id string "node_ref list" "py_value list" "(string \<times> py_value) list"

type_synonym trace = "foreign_call list"

text \<open>
  \<^verbatim>\<open>NNFactory\<close> and \<^verbatim>\<open>backend_lib\<close> are not part of the embedded modules: the backend is
  a parameter. It is deterministic and single-threaded, so what it answers is a function
  of the calls made so far: the outcome of a factory call (a node, or the exception the
  call raises, an \<^verbatim>\<open>AttributeError\<close> for a method the factory does not have included),
  and the three read-only queries \<^verbatim>\<open>op_shape_size\<close>, \<^verbatim>\<open>op_shape\<close>, \<^verbatim>\<open>op_dtype\<close>.
\<close>

record backend =
  call_factory :: "trace \<Rightarrow> foreign_call \<Rightarrow> py_error + node_ref"
  op_shape_size :: "trace \<Rightarrow> node_ref \<Rightarrow> int"
  op_shape :: "trace \<Rightarrow> node_ref \<Rightarrow> int \<Rightarrow> int"
  op_dtype :: "trace \<Rightarrow> node_ref \<Rightarrow> int"

section \<open>tensor.py\<close>

text \<open>The dataclass \<^verbatim>\<open>Tensor\<close>: its two fields.\<close>

record Tensor =
  factory :: factory_id
  node :: node_ref

text \<open>
  \<^verbatim>\<open>create_tensor(factory, shape, dtype)\<close>: one call of \<^verbatim>\<open>factory.parameter\<close>,
  the node wrapped in a \<^verbatim>\<open>Tensor\<close>.
\<close>

definition create_tensor ::
  "backend \<Rightarrow> factory_id \<Rightarrow> int list \<Rightarrow> dtype \<Rightarrow> trace \<Rightarrow> (py_error + Tensor) \<times> trace" where
  "create_tensor B f shp dt tr =
     (let c = Parameter f shp dt in
      case call_factory B tr c of
        Inl e \<Rightarrow> (Inl e, tr @ [c])
      | Inr n \<Rightarrow> (Inr \<lparr>factory = f, node = n\<rparr>, tr @ [c]))"

text \<open>
  The property \<^verbatim>\<open>Tensor.shape\<close>: the rank, then one query for each axis of
  \<^verbatim>\<open>range(shape_size)\<close> (empty when the rank is not positive).
\<close>

definition Tensor_shape :: "backend \<Rightarrow> trace \<Rightarrow> Tensor \<Rightarrow> int list" where
  "Tensor_shape B tr self =
     (let shape_size = op_shape_size B tr (node self)
      in map (\<lambda>i. op_shape B tr (node self) (int i)) [0..<nat shape_size])"

text \<open>
  NumPy is not part of the embedded modules either. The module object \<^verbatim>\<open>np\<close> is a
  parameter: the type names it binds. The attribute access \<^verbatim>\<open>np.bool\<close> gives what
  the installed NumPy binds to the name, and raises \<open>AttributeError\<close> where it binds
  nothing (NumPy removed this alias in 1.24 and has the name again from 2.0 on). The
  other types of the chain are names the module imports from the package's
  \<^verbatim>\<open>dtypes\<close>.
\<close>

type_synonym numpy = "string \<Rightarrow> dtype option"

definition np_getattr :: "numpy \<Rightarrow> string \<Rightarrow> py_error + dtype" where
  "np_getattr np attr =
     (case np attr of None \<Rightarrow> Inl (AttributeError attr) | Some d \<Rightarrow> Inr d)"

text \<open>
  The property \<^verbatim>\<open>Tensor.dtype\<close>: the \<^verbatim>\<open>if\<close>/\<^verbatim>\<open>elif\<close> chain, in its order; the
  first branch returns \<^verbatim>\<open>np.bool\<close>.
\<close>

definition Tensor_dtype :: "numpy \<Rightarrow> backend \<Rightarrow> trace \<Rightarrow> Tensor \<Rightarrow> py_error + dtype" where
  "Tensor_dtype np B tr self =
     (let dtype_int = op_dtype B tr (node self) in
      if dtype_int = 2 then np_getattr np ''bool''
      else if dtype_int = 3 then Inr bfloat16
      else if dtype_int = 4 then Inr float16
      else if dtype_int = 5 then Inr float32
      else if dtype_int = 6 then Inr float64
      else if dtype_int = 7 then Inr int4
      else if dtype_int = 8 then Inr int8
      else if dtype_int = 9 then Inr int16
      else if dtype_int = 10 then Inr int32
      else if dtype_int = 11 then Inr int64
      else Inl (RuntimeError [Lit ''Unsupported dtype'']))"

text \<open>
  The module-level function \<^verbatim>\<open>__generate_op(tensors, op, *args, **kwargs)\<close>.
  \<^verbatim>\<open>len({tensor.factory for tensor in tensors}) == 1\<close> counts the distinct factories
  (none for an empty sequence, so that an empty sequence raises too); after the check
  \<^verbatim>\<open>tensors[0]\<close> exists. The factory call gets the nodes, then \<^verbatim>\<open>args\<close>, then
  \<^verbatim>\<open>kwargs\<close>; an exception it raises propagates.
\<close>

definition generate_op ::
  "backend \<Rightarrow> Tensor list \<Rightarrow> string \<Rightarrow> py_value list \<Rightarrow> (string \<times> py_value) list
     \<Rightarrow> trace \<Rightarrow> (py_error + Tensor) \<times> trace" where
  "generate_op B tensors op args kwargs tr =
     (if \<not> length (remdups (map factory tensors)) = 1
      then (Inl (ValueError ''All tensors must be from the same factory''), tr)
      else
        let fct = factory (tensors ! 0);
            nodes = map node tensors;
            c = FactoryOp fct op nodes args kwargs
        in case call_factory B tr c of
             Inl e \<Rightarrow> (Inl e, tr @ [c])
           | Inr new_node \<Rightarrow> (Inr \<lparr>factory = fct, node = new_node\<rparr>, tr @ [c]))"


text \<open>
  Name resolution inside \<^verbatim>\<open>class Tensor\<close>. Python rewrites an identifier that occurs
  textually in a class definition, begins with two underscores and does not end in two
  underscores: the class name, stripped of its leading underscores and with one
  underscore put in front, is inserted before it, whatever the syntactic context of
  the identifier. The rewritten name is then looked up as a global of the module when
  the call is evaluated; a name that is not bound raises \<open>NameError\<close>.
\<close>

definition is_private_name :: "string \<Rightarrow> bool" where
  "is_private_name ident =
     (take 2 ident = ''__'' \<and> drop (length ident - 2) ident \<noteq> ''__'')"

definition mangle :: "string \<Rightarrow> string \<Rightarrow> string" where
  "mangle cls ident =
     (let stripped = dropWhile (\<lambda>c. c = CHR ''_'') cls
      in if is_private_name ident \<and> stripped \<noteq> [] then CHR ''_'' # stripped @ ident
         else ident)"

type_synonym gen_fn =
  "Tensor list \<Rightarrow> string \<Rightarrow> py_value list \<Rightarrow> (string \<times> py_value) list
     \<Rightarrow> trace \<Rightarrow> (py_error + Tensor) \<times> trace"

datatype py_object = Function gen_fn | Other

type_synonym globals = "string \<Rightarrow> py_object option"

text \<open>
  The names \<^verbatim>\<open>tensor.py\<close> binds at module level: its imports, \<^verbatim>\<open>create_tensor\<close>,
  \<^verbatim>\<open>Tensor\<close> and \<^verbatim>\<open>__generate_op\<close> (a \<^verbatim>\<open>def\<close> outside any class keeps its name).
  Only \<^verbatim>\<open>__generate_op\<close> is called by the methods, so only its value is kept;
  the other names are bound to objects that are not functions of its kind.
\<close>

definition tensor_globals :: "backend \<Rightarrow> globals" where
  "tensor_globals B =
     map_of
       [(''NNFactory'', Other), (''backend_lib'', Other),
        (''float16'', Other), (''bfloat16'', Other), (''float32'', Other),
        (''float64'', Other), (''int4'', Other), (''int8'', Other), (''int16'', Other),
        (''int32'', Other), (''int64'', Other), (''NPUDtype'', Other),
        (''dataclass'', Other), (''Sequence'', Other), (''Any'', Other),
        (''np'', Other), (''ctypes'', Other),
        (''create_tensor'', Other), (''Tensor'', Other),
        (''__generate_op'', Function (generate_op B))]"

definition load_global :: "globals \<Rightarrow> string \<Rightarrow> py_error + gen_fn" where
  "load_global g ident =
     (case g ident of
        None \<Rightarrow> Inl (NameError ident)
      | Some Other \<Rightarrow> Inl (TypeError ident)
      | Some (Function fn) \<Rightarrow> Inr fn)"

text \<open>
  The methods of \<^verbatim>\<open>Tensor\<close>. Each body is \<^verbatim>\<open>return __generate_op(...)\<close>, written
  inside the class: the callee is the global the identifier resolves to there. A call
  evaluates the callee first, then its arguments.
\<close>

definition Tensor_neg :: "globals \<Rightarrow> Tensor \<Rightarrow> trace \<Rightarrow> (py_error + Tensor) \<times> trace" where
  "Tensor_neg g self tr =
     (case load_global g (mangle ''Tensor'' ''__generate_op'') of
        Inl e \<Rightarrow> (Inl e, tr)
      | Inr fn \<Rightarrow> fn [self] ''negative'' [] [] tr)"

definition Tensor_add ::
  "globals \<Rightarrow> Tensor \<Rightarrow> Tensor \<Rightarrow> trace \<Rightarrow> (py_error + Tensor) \<times> trace" where
  "Tensor_add g self other tr =
     (case load_global g (mangle ''Tensor'' ''__generate_op'') of
        Inl e \<Rightarrow> (Inl e, tr)
      | Inr fn \<Rightarrow> fn [self, other] ''eltwise_add'' [] [] tr)"

text \<open>
  \<^verbatim>\<open>__sub__\<close>: the argument list holds \<^verbatim>\<open>-other\<close>, which is \<^verbatim>\<open>other.__neg__()\<close>,
  evaluated after the callee and before the call.
\<close>

definition Tensor_sub ::
  "globals \<Rightarrow> Tensor \<Rightarrow> Tensor \<Rightarrow> trace \<Rightarrow> (py_error + Tensor) \<times> trace" where
  "Tensor_sub g self other tr =
     (case load_global g (mangle ''Tensor'' ''__generate_op'') of
        Inl e \<Rightarrow> (Inl e, tr)
      | Inr fn \<Rightarrow>
          (case Tensor_neg g other tr of
             (Inl e, tr') \<Rightarrow> (Inl e, tr')
           | (Inr neg_other, tr') \<Rightarrow> fn [self, neg_other] ''eltwise_add'' [] [] tr'))"

definition Tensor_mul ::
  "globals \<Rightarrow> Tensor \<Rightarrow> Tensor \<Rightarrow> trace \<Rightarrow> (py_error + Tensor) \<times> trace" where
  "Tensor_mul g self other tr =
     (case load_global g (mangle ''Tensor'' ''__generate_op'') of
        Inl e \<Rightarrow> (Inl e, tr)
      | Inr fn \<Rightarrow> fn [self, other] ''eltwise_mul'' [] [] tr)"

definition Tensor_truediv ::
  "globals \<Rightarrow> Tensor \<Rightarrow> Tensor \<Rightarrow> trace \<Rightarrow> (py_error + Tensor) \<times> trace" where
  "Tensor_truediv g self other tr =
     (case load_global g (mangle ''Tensor'' ''__generate_op'') of
        Inl e \<Rightarrow> (Inl e, tr)
      | Inr fn \<Rightarrow> fn [self, other] ''eltwise_div'' [] [] tr)"

definition Tensor_matmul ::
  "globals \<Rightarrow> Tensor \<Rightarrow> Tensor \<Rightarrow> trace \<Rightarrow> (py_error + Tensor) \<times> trace" where
  "Tensor_matmul g self other tr =
     (case load_global g (mangle ''Tensor'' ''__generate_op'') of
        Inl e \<Rightarrow> (Inl e, tr)
      | Inr fn \<Rightarrow> fn [self, other] ''matmul'' [] [] tr)"

definition Tensor_squeeze :: "globals \<Rightarrow> Tensor \<Rightarrow> trace \<Rightarrow> (py_error + Tensor) \<times> trace" where
  "Tensor_squeeze g self tr =
     (case load_global g (mangle ''Tensor'' ''__generate_op'') of
        Inl e \<Rightarrow> (Inl e, tr)
      | Inr fn \<Rightarrow> fn [self] ''squeeze'' [] [] tr)"

definition Tensor_unsqueeze ::
  "globals \<Rightarrow> Tensor \<Rightarrow> int \<Rightarrow> trace \<Rightarrow> (py_error + Tensor) \<times> trace" where
  "Tensor_unsqueeze g self axis tr =
     (case load_global g (mangle ''Tensor'' ''__generate_op'') of
        Inl e \<Rightarrow> (Inl e, tr)
      | Inr fn \<Rightarrow> fn [self] ''unsqueeze'' [PyInt axis] [] tr)"

text \<open>
  The property \<^verbatim>\<open>T\<close>. \<^verbatim>\<open>input_order = list(range(len(self.shape)))\<close>, then the
  tuple assignment: the right-hand side reads \<^verbatim>\<open>input_order[-2]\<close> and
  \<^verbatim>\<open>input_order[-1]\<close>, the targets \<^verbatim>\<open>input_order[-1]\<close> and \<^verbatim>\<open>input_order[-2]\<close>
  are then stored left to right. Both statements run before the \<^verbatim>\<open>return\<close>.
\<close>

definition swap_last_two :: "int list \<Rightarrow> py_error + int list" where
  "swap_last_two input_order =
     (case py_getitem input_order (- 2) of
        Inl e \<Rightarrow> Inl e
      | Inr a \<Rightarrow>
     (case py_getitem input_order (- 1) of
        Inl e \<Rightarrow> Inl e
      | Inr b \<Rightarrow>
     (case py_setitem input_order (- 1) a of
        Inl e \<Rightarrow> Inl e
      | Inr input_order' \<Rightarrow> py_setitem input_order' (- 2) b)))"

definition Tensor_T ::
  "backend \<Rightarrow> globals \<Rightarrow> Tensor \<Rightarrow> trace \<Rightarrow> (py_error + Tensor) \<times> trace" where
  "Tensor_T B g self tr =
     (let input_order = map int [0..<length (Tensor_shape B tr self)] in
      case swap_last_two input_order of
        Inl e \<Rightarrow> (Inl e, tr)
      | Inr input_order' \<Rightarrow>
          (case load_global g (mangle ''Tensor'' ''__generate_op'') of
             Inl e \<Rightarrow> (Inl e, tr)
           | Inr fn \<Rightarrow> fn [self] ''transpose'' [PyList input_order'] [] tr))"

text \<open>
  \<^verbatim>\<open>__len__\<close> returns \<^verbatim>\<open>np.product(self.shape)\<close>. NumPy is not part of the embedded
  modules; \<open>np_product\<close> is its documented behaviour on a list of Python integers:
  the list becomes an array of the default integer type, taken here as the 64-bit
  signed one, whose product wraps, and the empty list becomes an empty array of
  \<^verbatim>\<open>float64\<close>, whose product is the float \<^verbatim>\<open>1.0\<close>.
\<close>

datatype np_scalar = np_int64 int | np_float64 real

definition np_product :: "int list \<Rightarrow> np_scalar" where
  "np_product xs =
     (if xs = [] then np_float64 1
      else np_int64 (sint (word_of_int (prod_list xs) :: 64 word)))"

definition Tensor_len :: "backend \<Rightarrow> trace \<Rightarrow> Tensor \<Rightarrow> np_scalar" where
  "Tensor_len B tr self = np_product (Tensor_shape B tr self)"

text \<open>
  The builtin \<^verbatim>\<open>len(x)\<close> calls \<^verbatim>\<open>x.__len__()\<close> and converts the result with
  \<^verbatim>\<open>__index__\<close>: an integer that is not negative is returned, a negative one raises
  \<open>ValueError\<close>, and a float (which has no \<^verbatim>\<open>__index__\<close>) raises \<open>TypeError\<close>.
\<close>

definition py_len :: "np_scalar \<Rightarrow> py_error + int" where
  "py_len r =
     (case r of
        np_int64 v \<Rightarrow>
          if v < 0 then Inl (ValueError ''__len__() should return >= 0'') else Inr v
      | np_float64 x \<Rightarrow>
          Inl (TypeError ''numpy.float64 object cannot be interpreted as an integer''))"

definition len_Tensor :: "backend \<Rightarrow> trace \<Rightarrow> Tensor \<Rightarrow> py_error + int" where
  "len_Tensor B tr self = py_len (Tensor_len B tr self)"

section \<open>ops.py\<close>

datatype ctype = c_float | c_bool

record SupportedOp =
  name :: string
  inputs :: int
  parameters :: "ctype list"

text \<open>The literal table of \<^verbatim>\<open>get_supported_ops\<close>, in its order.\<close>

definition unary :: "string \<Rightarrow> SupportedOp" where
  "unary n = \<lparr>name = n, inputs = 1, parameters = []\<rparr>"

definition supported_ops :: "SupportedOp list" where
  "supported_ops =
     [\<lparr>name = ''matmul'', inputs = 2, parameters = []\<rparr>,
      \<lparr>name = ''eltwise_add'', inputs = 2, parameters = []\<rparr>,
      \<lparr>name = ''eltwise_mul'', inputs = 2, parameters = []\<rparr>,
      \<lparr>name = ''eltwise_div'', inputs = 2, parameters = []\<rparr>,
      unary ''abs_act'', unary ''acos_act'', unary ''asin_act'', unary ''atan_act'',
      unary ''ceiling'',
      \<lparr>name = ''clamp'', inputs = 1, parameters = [c_float, c_float]\<rparr>,
      unary ''cos_act'', unary ''cosh_act'', unary ''erf_act'',
      \<lparr>name = ''elu'', inputs = 1, parameters = [c_float]\<rparr>,
      unary ''exp_act'', unary ''floor_act'',
      \<lparr>name = ''grn'', inputs = 1, parameters = [c_float]\<rparr>,
      unary ''gelu'', unary ''log_act'', unary ''negative'', unary ''relu'',
      unary ''sigmoid'', unary ''sign'', unary ''sin_act'', unary ''sinh_act'',
      unary ''sqrt_act'', unary ''tan_act'', unary ''tanh_act'', unary ''acosh_act'',
      unary ''asinh_act'', unary ''atanh_act'', unary ''hswish'', unary ''mish'',
      unary ''softplus'', unary ''hsigmoid'', unary ''round_act'', unary ''softsign'',
      unary ''softmax'', unary ''swish'', unary ''convert_to_fp16'',
      \<lparr>name = ''scaled_dot_product_attention'', inputs = 4, parameters = [c_bool]\<rparr>]"

text \<open>
  \<^verbatim>\<open>@lru_cache(maxsize=None)\<close> on a function of no argument: the cache holds nothing
  or the one result. A call with an empty cache runs the body and stores its result;
  a call with a filled cache returns what is stored.
\<close>

type_synonym lru_cache = "SupportedOp list option"

definition get_supported_ops :: "lru_cache \<Rightarrow> SupportedOp list \<times> lru_cache" where
  "get_supported_ops cache =
     (case cache of
        Some hit \<Rightarrow> (hit, cache)
      | None \<Rightarrow> (supported_ops, Some supported_ops))"

section \<open>qmatmul.py\<close>

text \<open>
  An \<^verbatim>\<open>np.ndarray\<close> is its shape and its contents, which the checks never read. The
  fields of \<^verbatim>\<open>QMatMul\<close> are those \<^verbatim>\<open>__init__\<close> stores.
\<close>

record 'a ndarray =
  shape :: "int list"
  contents :: 'a

record QMatMul =
  inC :: int
  outC :: int
  batch :: int

text \<open>
  \<^verbatim>\<open>s[0] == a and s[1] == b\<close>: \<^verbatim>\<open>and\<close> does not evaluate its right operand when
  the left one is false.
\<close>

definition dims_are :: "int list \<Rightarrow> int \<Rightarrow> int \<Rightarrow> py_error + bool" where
  "dims_are s a b =
     (case py_getitem s 0 of
        Inl e \<Rightarrow> Inl e
      | Inr d0 \<Rightarrow>
          if d0 \<noteq> a then Inr False
          else (case py_getitem s 1 of Inl e \<Rightarrow> Inl e | Inr d1 \<Rightarrow> Inr (d1 = b)))"

text \<open>
  \<^verbatim>\<open>QMatMul.run(X, W, scale)\<close>: the three checks in their order, each with its own
  message, then \<^verbatim>\<open>super().run(X, (W, scale))\<close>, which belongs to \<^verbatim>\<open>NNFactory\<close> and is
  a parameter here.
\<close>

definition QMatMul_run ::
  "('a ndarray \<Rightarrow> 'a ndarray \<times> 'a ndarray \<Rightarrow> py_error + 'r)
     \<Rightarrow> QMatMul \<Rightarrow> 'a ndarray \<Rightarrow> 'a ndarray \<Rightarrow> 'a ndarray \<Rightarrow> py_error + 'r" where
  "QMatMul_run super_run self X W scale =
     (case dims_are (shape X) (batch self) (inC self) of
        Inl e \<Rightarrow> Inl e
      | Inr False \<Rightarrow>
          Inl (RuntimeError [Lit ''Input shape '', Tup (shape X),
                 Lit '' different from expected one '', Tup [batch self, inC self]])
      | Inr True \<Rightarrow>
     (case dims_are (shape X) (batch self) (inC self) of
        Inl e \<Rightarrow> Inl e
      | Inr False \<Rightarrow>
          Inl (RuntimeError [Lit ''Weight shape '', Tup (shape W),
                 Lit '' different from expected one '', Tup [outC self, inC self]])
      | Inr True \<Rightarrow>
     (case dims_are (shape X) (batch self) (inC self) of
        Inl e \<Rightarrow> Inl e
      | Inr False \<Rightarrow>
          Inl (RuntimeError [Lit ''Scale shape '', Tup (shape W),
                 Lit '' different from expected one '', Tup [outC self, 1]])
      | Inr True \<Rightarrow> super_run X (W, scale))))"

section \<open>The backend of the specification\<close>

text \<open>
  Modelled from the spec: \<^verbatim>\<open>NNFactory.parameter\<close>, \<^verbatim>\<open>backend_lib.op_shape_size\<close> and
  \<^verbatim>\<open>backend_lib.op_shape\<close> are not among the source files. The specification gives
  their contract: \<^verbatim>\<open>parameter(shape, dtype)\<close> allocates a graph input node,
  \<^verbatim>\<open>shape_size(node)\<close> is the rank of a node and \<^verbatim>\<open>shape_dim(node, index)\<close> its
  extent on one axis, the graph is append-only and the backend is the sole authority on
  a node's shape. Here a node is referred to by its position in the graph, which is the
  position of the call that made it. The backend rejects the pairs that are not
  \<open>valid\<close>, and derives the shape of an operation's result with \<open>infer\<close>, from
  the graph before it and the call: the specification leaves both to the backend, so
  they are parameters, as is the type code of a node.
\<close>

definition spec_node_shape ::
  "(trace \<Rightarrow> foreign_call \<Rightarrow> int list) \<Rightarrow> trace \<Rightarrow> node_ref \<Rightarrow> int list" where
  "spec_node_shape infer tr n =
     (if length tr \<le> n then []
      else (case tr ! n of
              Parameter f shp dt \<Rightarrow> shp
            | FactoryOp f op nodes args kwargs \<Rightarrow> infer (take n tr) (tr ! n)))"

definition spec_backend ::
  "(int list \<Rightarrow> dtype \<Rightarrow> bool) \<Rightarrow> (trace \<Rightarrow> foreign_call \<Rightarrow> int list)
     \<Rightarrow> (trace \<Rightarrow> node_ref \<Rightarrow> int) \<Rightarrow> backend" where
  "spec_backend valid infer dtype_code =
     \<lparr>call_factory =
        (\<lambda>tr c. case c of
                  Parameter f shp dt \<Rightarrow>
                    if valid shp dt then Inr (length tr)
                    else Inl (ForeignError ''parameter'')
                | FactoryOp f op nodes args kwargs \<Rightarrow> Inr (length tr)),
      op_shape_size = (\<lambda>tr n. int (length (spec_node_shape infer tr n))),
      op_shape = (\<lambda>tr n i. spec_node_shape infer tr n ! nat i),
      op_dtype = dtype_code\<rparr>"

text \<open>
  The table of the dtype query as the specification words it: the closed mapping from
  the backend's type codes to the semantic types.
\<close>

definition dtype_table :: "(int \<times> dtype) list" where
  "dtype_table =
     [(2, np_bool), (3, bfloat16), (4, float16), (5, float32), (6, float64),
      (7, int4), (8, int8), (9, int16), (10, int32), (11, int64)]"


section \<open>Facts about \<^verbatim>\<open>__generate_op\<close>\<close>

lemma one_owner:
  assumes "tensors \<noteq> []" and "\<forall>t\<in>set tensors. factory t = f"
  shows "length (remdups (map factory tensors)) = 1"
proof -
  have "set (map factory tensors) = {f}"
    using assms by (cases tensors) auto
  then show ?thesis
    by (simp add: length_remdups_card_conv)
qed

lemma one_owner_iff:
  "length (remdups (map factory tensors)) = 1 \<longleftrightarrow> (\<exists>f. factory ` set tensors = {f})"
  by (simp add: length_remdups_card_conv card_1_singleton_iff)

lemma generate_op_same_owner:
  assumes "tensors \<noteq> []" and "\<forall>t\<in>set tensors. factory t = f"
  shows "generate_op B tensors op args kwargs tr =
     (case call_factory B tr (FactoryOp f op (map node tensors) args kwargs) of
        Inl e \<Rightarrow> Inl e
      | Inr n \<Rightarrow> Inr \<lparr>factory = f, node = n\<rparr>,
      tr @ [FactoryOp f op (map node tensors) args kwargs])"
proof -
  have one: "length (remdups (map factory tensors)) = 1"
    using assms by (rule one_owner)
  have first: "factory (tensors ! 0) = f"
    using assms by (cases tensors) auto
  show ?thesis
    unfolding generate_op_def Let_def first
    by (simp add: one split: sum.splits)
qed

text \<open>
  The check of \<^verbatim>\<open>__generate_op\<close> itself: operands of two factories, or no operand
  at all, raise \<open>ValueError\<close> and no factory is called.
\<close>

lemma generate_op_mismatch:
  assumes "a \<in> set tensors" and "b \<in> set tensors" and "factory a \<noteq> factory b"
  shows "generate_op B tensors op args kwargs tr =
     (Inl (ValueError ''All tensors must be from the same factory''), tr)"
proof -
  have "\<not> (\<exists>f. factory ` set tensors = {f})"
    using assms by (metis imageI singletonD)
  then have "length (remdups (map factory tensors)) \<noteq> 1"
    by (simp only: one_owner_iff) simp
  then show ?thesis
    by (simp add: generate_op_def)
qed

lemma generate_op_empty:
  "generate_op B [] op args kwargs tr =
     (Inl (ValueError ''All tensors must be from the same factory''), tr)"
  by (simp add: generate_op_def)

section \<open>Facts about the methods of \<^verbatim>\<open>Tensor\<close>\<close>

text \<open>
  Inside the class the identifier \<^verbatim>\<open>__generate_op\<close> stands for
  \<^verbatim>\<open>_Tensor__generate_op\<close>, which the module does not bind; the function is bound
  under its own name only.
\<close>

lemma mangled_generate_op:
  "mangle ''Tensor'' ''__generate_op'' = ''_Tensor__generate_op''"
  by (simp add: mangle_def is_private_name_def)

lemma dunder_not_mangled: "mangle ''Tensor'' ''__add__'' = ''__add__''"
  by (simp add: mangle_def is_private_name_def)

lemma mangled_unbound: "tensor_globals B ''_Tensor__generate_op'' = None"
  by (simp add: tensor_globals_def)

lemma generate_op_bound:
  "tensor_globals B ''__generate_op'' = Some (Function (generate_op B))"
  by (simp add: tensor_globals_def)

lemma load_private:
  "load_global (tensor_globals B) (mangle ''Tensor'' ''__generate_op'') =
     Inl (NameError ''_Tensor__generate_op'')"
  by (simp add: mangled_generate_op mangled_unbound load_global_def)

lemma binary_NameError:
  "Tensor_add (tensor_globals B) a b tr = (Inl (NameError ''_Tensor__generate_op''), tr)"
  "Tensor_sub (tensor_globals B) a b tr = (Inl (NameError ''_Tensor__generate_op''), tr)"
  "Tensor_mul (tensor_globals B) a b tr = (Inl (NameError ''_Tensor__generate_op''), tr)"
  "Tensor_truediv (tensor_globals B) a b tr = (Inl (NameError ''_Tensor__generate_op''), tr)"
  "Tensor_matmul (tensor_globals B) a b tr = (Inl (NameError ''_Tensor__generate_op''), tr)"
  by (simp_all add: Tensor_add_def Tensor_sub_def Tensor_mul_def Tensor_truediv_def
        Tensor_matmul_def load_private)

lemma unary_NameError:
  "Tensor_neg (tensor_globals B) a tr = (Inl (NameError ''_Tensor__generate_op''), tr)"
  "Tensor_squeeze (tensor_globals B) a tr = (Inl (NameError ''_Tensor__generate_op''), tr)"
  "Tensor_unsqueeze (tensor_globals B) a axis tr =
     (Inl (NameError ''_Tensor__generate_op''), tr)"
  by (simp_all add: Tensor_neg_def Tensor_squeeze_def Tensor_unsqueeze_def load_private)

text \<open>
  What the method bodies do in an environment where the callee does resolve to
  \<^verbatim>\<open>__generate_op\<close>: the environment is a hypothesis here, the module's own globals
  do not satisfy it (\<open>load_private\<close>).
\<close>

lemma add_resolved_mismatch:
  assumes g: "load_global g (mangle ''Tensor'' ''__generate_op'') = Inr (generate_op B)"
    and ab: "factory a \<noteq> factory b"
  shows "Tensor_add g a b tr =
     (Inl (ValueError ''All tensors must be from the same factory''), tr)"
  using ab by (simp add: Tensor_add_def g generate_op_mismatch [of a _ b])

lemma neg_resolved:
  assumes g: "load_global g (mangle ''Tensor'' ''__generate_op'') = Inr (generate_op B)"
  shows "Tensor_neg g b tr =
     (case call_factory B tr (FactoryOp (factory b) ''negative'' [node b] [] []) of
        Inl e \<Rightarrow> Inl e
      | Inr n \<Rightarrow> Inr \<lparr>factory = factory b, node = n\<rparr>,
      tr @ [FactoryOp (factory b) ''negative'' [node b] [] []])"
  by (simp add: Tensor_neg_def g generate_op_same_owner [where f = "factory b"])

lemma sub_resolved_mismatch:
  assumes g: "load_global g (mangle ''Tensor'' ''__generate_op'') = Inr (generate_op B)"
    and ab: "factory a \<noteq> factory b"
    and neg: "call_factory B tr (FactoryOp (factory b) ''negative'' [node b] [] []) = Inr n"
  shows "Tensor_sub g a b tr =
     (Inl (ValueError ''All tensors must be from the same factory''),
      tr @ [FactoryOp (factory b) ''negative'' [node b] [] []])"
proof -
  have "generate_op B [a, \<lparr>factory = factory b, node = n\<rparr>] ''eltwise_add'' [] [] tr' =
      (Inl (ValueError ''All tensors must be from the same factory''), tr')" for tr'
    using ab by (intro generate_op_mismatch [of a _ "\<lparr>factory = factory b, node = n\<rparr>"]) auto
  then show ?thesis
    by (simp add: Tensor_sub_def g neg_resolved [OF g] neg)
qed

lemma sub_resolved_two_nodes:
  assumes g: "load_global g (mangle ''Tensor'' ''__generate_op'') = Inr (generate_op B)"
    and ab: "factory a = factory b"
    and neg: "call_factory B tr (FactoryOp (factory b) ''negative'' [node b] [] []) = Inr n"
  shows "Tensor_sub g a b tr =
     (case call_factory B (tr @ [FactoryOp (factory b) ''negative'' [node b] [] []])
             (FactoryOp (factory a) ''eltwise_add'' [node a, n] [] []) of
        Inl e \<Rightarrow> Inl e
      | Inr m \<Rightarrow> Inr \<lparr>factory = factory a, node = m\<rparr>,
      tr @ [FactoryOp (factory b) ''negative'' [node b] [] [],
            FactoryOp (factory a) ''eltwise_add'' [node a, n] [] []])"
  using ab
  by (simp add: Tensor_sub_def g neg_resolved [OF g] neg
        generate_op_same_owner [where f = "factory a"])

text \<open>
  In every environment \<^verbatim>\<open>a - b\<close> behaves as \<^verbatim>\<open>a + (-b)\<close>: the negation first,
  then the addition of its result, or the exception of whichever raises first.
\<close>

lemma sub_is_add_neg:
  "Tensor_sub g a b tr =
     (case Tensor_neg g b tr of
        (Inl e, tr') \<Rightarrow> (Inl e, tr')
      | (Inr neg_b, tr') \<Rightarrow> Tensor_add g a neg_b tr')"
proof (cases "load_global g (mangle ''Tensor'' ''__generate_op'')")
  case (Inl e)
  then show ?thesis
    by (simp add: Tensor_sub_def Tensor_neg_def)
next
  case (Inr fn)
  then show ?thesis
    by (simp add: Tensor_sub_def Tensor_add_def split: prod.splits sum.splits)
qed

text \<open>The axis order of \<^verbatim>\<open>T\<close>.\<close>

lemma swap_last_two_append:
  "swap_last_two (xs @ [a, b]) = Inr (xs @ [b, a])"
  by (simp add: swap_last_two_def py_getitem_def py_setitem_def Let_def nth_append
        nat_add_distrib list_update_append)

lemma swap_last_two_short:
  "length xs < 2 \<Longrightarrow> swap_last_two xs = Inl IndexError"
  by (simp add: swap_last_two_def py_getitem_def Let_def)

lemma range_split:
  assumes "2 \<le> n"
  shows "map int [0..<n] = map int [0..<n - 2] @ [int n - 2, int n - 1]"
proof -
  obtain k where n: "n = k + 2"
    using assms by (metis le_add_diff_inverse2)
  show ?thesis by (simp add: n)
qed

lemma input_order_swapped:
  assumes "2 \<le> n"
  shows "swap_last_two (map int [0..<n]) = Inr (map int [0..<n - 2] @ [int n - 1, int n - 2])"
  by (simp only: range_split [OF assms] swap_last_two_append)

lemma T_rank_ge_2:
  assumes "2 \<le> length (Tensor_shape B tr self)"
  shows "Tensor_T B (tensor_globals B) self tr = (Inl (NameError ''_Tensor__generate_op''), tr)"
  by (simp add: Tensor_T_def Let_def input_order_swapped [OF assms] load_private)

lemma T_rank_lt_2:
  assumes "length (Tensor_shape B tr self) < 2"
  shows "Tensor_T B g self tr = (Inl IndexError, tr)"
  using assms by (simp add: Tensor_T_def Let_def swap_last_two_short)

lemma T_resolved:
  assumes g: "load_global g (mangle ''Tensor'' ''__generate_op'') = Inr (generate_op B)"
    and rank: "2 \<le> length (Tensor_shape B tr self)"
  shows "Tensor_T B g self tr =
     generate_op B [self] ''transpose''
       [PyList (map int [0..<length (Tensor_shape B tr self) - 2]
                @ [int (length (Tensor_shape B tr self)) - 1,
                   int (length (Tensor_shape B tr self)) - 2])] [] tr"
  by (simp add: Tensor_T_def Let_def input_order_swapped [OF rank] g)

text \<open>The element count.\<close>

lemma sint64_id:
  assumes "- (2 ^ 63) \<le> p" and "p < 2 ^ 63"
  shows "sint (word_of_int p :: 64 word) = p"
  using assms by (simp add: sint_sbintrunc' signed_take_bit_int_eq_self)

lemma np_product_exact:
  assumes "xs \<noteq> []" and "- (2 ^ 63) \<le> prod_list xs" and "prod_list xs < 2 ^ 63"
  shows "np_product xs = np_int64 (prod_list xs)"
  using assms by (simp add: np_product_def sint64_id)

lemma len_Tensor_product:
  assumes "Tensor_shape B tr self \<noteq> []"
    and "0 \<le> prod_list (Tensor_shape B tr self)"
    and "prod_list (Tensor_shape B tr self) < 2 ^ 63"
  shows "len_Tensor B tr self = Inr (prod_list (Tensor_shape B tr self))"
proof -
  have "np_product (Tensor_shape B tr self) = np_int64 (prod_list (Tensor_shape B tr self))"
    using assms by (intro np_product_exact) auto
  then show ?thesis
    using assms(2) by (simp add: len_Tensor_def Tensor_len_def py_len_def)
qed

lemma len_4_5:
  assumes "Tensor_shape B tr self = [4, 5]"
  shows "Tensor_len B tr self = np_int64 20 \<and> len_Tensor B tr self = Inr 20"
  using assms by (simp add: len_Tensor_def Tensor_len_def py_len_def np_product_def)

section \<open>Facts about the backend of the specification\<close>

lemma Tensor_shape_spec_parameter:
  "Tensor_shape (spec_backend valid infer dc) (tr @ Parameter f shp dt # later)
     \<lparr>factory = f', node = length tr\<rparr> = shp"
  by (simp add: Tensor_shape_def spec_backend_def spec_node_shape_def nth_append Let_def
        map_nth)

section \<open>Facts about the dtype query\<close>

lemma Tensor_dtype_by_table:
  "Tensor_dtype np B tr self =
     (if op_dtype B tr (node self) = 2 then np_getattr np ''bool''
      else (case map_of dtype_table (op_dtype B tr (node self)) of
              Some d \<Rightarrow> Inr d
            | None \<Rightarrow> Inl (RuntimeError [Lit ''Unsupported dtype''])))"
  by (simp add: Tensor_dtype_def dtype_table_def Let_def)

text \<open>
  Where NumPy does not bind \<^verbatim>\<open>bool\<close>, the query of a node of type code 2 raises
  \<open>AttributeError\<close>: neither the boolean type nor the unsupported-dtype error.
\<close>

lemma dtype_code_2_without_np_bool:
  assumes "np ''bool'' = None" and "op_dtype B tr (node self) = 2"
  shows "Tensor_dtype np B tr self = Inl (AttributeError ''bool'')"
  using assms by (simp add: Tensor_dtype_by_table np_getattr_def)

lemma dtype_codes_3_to_11:
  assumes "op_dtype B tr (node self) \<noteq> 2"
  shows "Tensor_dtype np B tr self =
     (case map_of dtype_table (op_dtype B tr (node self)) of
        Some d \<Rightarrow> Inr d
      | None \<Rightarrow> Inl (RuntimeError [Lit ''Unsupported dtype'']))"
  using assms by (simp add: Tensor_dtype_by_table)

section \<open>Facts about \<^verbatim>\<open>get_supported_ops\<close> and \<^verbatim>\<open>QMatMul.run\<close>\<close>

lemma supported_op_names_distinct: "distinct (map name supported_ops)"
  by (simp add: supported_ops_def unary_def)

lemma length_supported_ops: "length supported_ops = 41"
  by (simp add: supported_ops_def)

lemma get_supported_ops_filled:
  "get_supported_ops (Some supported_ops) = (supported_ops, Some supported_ops)"
  by (simp add: get_supported_ops_def)

lemma dims_are_expected: "dims_are (b # c # rest) b c = Inr True"
  by (simp add: dims_are_def py_getitem_def Let_def)

text \<open>
  The second and the third check of \<^verbatim>\<open>run\<close> repeat the first: once the first has
  passed they pass, so their two messages are never raised.
\<close>

lemma QMatMul_run_one_check:
  "QMatMul_run super_run self X W scale =
     (case dims_are (shape X) (batch self) (inC self) of
        Inl e \<Rightarrow> Inl e
      | Inr False \<Rightarrow>
          Inl (RuntimeError [Lit ''Input shape '', Tup (shape X),
                 Lit '' different from expected one '', Tup [batch self, inC self]])
      | Inr True \<Rightarrow> super_run X (W, scale))"
  by (simp add: QMatMul_run_def split: sum.splits bool.splits)


section \<open>The claims\<close>

text \<open>
  Claim C1. An operator (\<^verbatim>\<open>+\<close>, \<^verbatim>\<open>-\<close>, \<^verbatim>\<open>*\<close>, \<^verbatim>\<open>/\<close>, \<^verbatim>\<open>@\<close>) whose operands belong to
  two factories is to fail with the ownership error (\<open>ValueError\<close> in the code) before
  any foreign call. In the code each of the five, on a handle of factory 0 and a handle
  of factory 1, raises \<open>NameError\<close> for \<^verbatim>\<open>_Tensor__generate_op\<close>: the callee does not
  resolve, the ownership check of \<^verbatim>\<open>__generate_op\<close> is not reached, and the trace is
  left as it was.
\<close>

theorem cross_owner_operators_raise_NameError:
  "Tensor_add (tensor_globals B) \<lparr>factory = 0, node = 0\<rparr> \<lparr>factory = 1, node = 0\<rparr> tr =
     (Inl (NameError ''_Tensor__generate_op''), tr)
   \<and> Tensor_sub (tensor_globals B) \<lparr>factory = 0, node = 0\<rparr> \<lparr>factory = 1, node = 0\<rparr> tr =
     (Inl (NameError ''_Tensor__generate_op''), tr)
   \<and> Tensor_mul (tensor_globals B) \<lparr>factory = 0, node = 0\<rparr> \<lparr>factory = 1, node = 0\<rparr> tr =
     (Inl (NameError ''_Tensor__generate_op''), tr)
   \<and> Tensor_truediv (tensor_globals B) \<lparr>factory = 0, node = 0\<rparr> \<lparr>factory = 1, node = 0\<rparr> tr =
     (Inl (NameError ''_Tensor__generate_op''), tr)
   \<and> Tensor_matmul (tensor_globals B) \<lparr>factory = 0, node = 0\<rparr> \<lparr>factory = 1, node = 0\<rparr> tr =
     (Inl (NameError ''_Tensor__generate_op''), tr)"
  by (simp only: binary_NameError)

text \<open>
  Claim C2. The subtraction \<^verbatim>\<open>a - b\<close> of two handles of one factory is to allocate a
  \<^verbatim>\<open>negative\<close> node on \<^verbatim>\<open>b\<close> and then an \<^verbatim>\<open>eltwise_add\<close> node. In the code the
  subtraction of two handles of factory 0 raises \<open>NameError\<close> before \<^verbatim>\<open>-other\<close> is
  evaluated: it allocates no node and returns no handle.
\<close>

theorem sub_same_owner_allocates_nothing:
  "Tensor_sub (tensor_globals B) \<lparr>factory = 0, node = 0\<rparr> \<lparr>factory = 0, node = 1\<rparr>
       [Parameter 0 [4, 5] float16, Parameter 0 [4, 5] float16] =
     (Inl (NameError ''_Tensor__generate_op''),
      [Parameter 0 [4, 5] float16, Parameter 0 [4, 5] float16])"
  by (simp only: binary_NameError)

text \<open>
  Claim C3. The dtype query maps the backend's type code through the closed table
  2: boolean, 3: bfloat16, 4: float16, 5: float32, 6: float64, 7: int4, 8: int8,
  9: int16, 10: int32, 11: int64, and raises the unsupported-dtype error
  (\<^verbatim>\<open>RuntimeError("Unsupported dtype")\<close>) for every other code, which are exactly the
  codes below 2 and above 11. The query is the table at every code but 2, where it is
  the value of \<^verbatim>\<open>np.bool\<close>: it is the table at every code where NumPy binds that
  name to its boolean type.
\<close>

theorem dtype_query_closed_table:
  "Tensor_dtype np B tr self =
     (if op_dtype B tr (node self) = 2 then np_getattr np ''bool''
      else (case map_of dtype_table (op_dtype B tr (node self)) of
              Some d \<Rightarrow> Inr d
            | None \<Rightarrow> Inl (RuntimeError [Lit ''Unsupported dtype''])))
   \<and> (np ''bool'' = Some np_bool \<longrightarrow>
        Tensor_dtype np B tr self =
          (case map_of dtype_table (op_dtype B tr (node self)) of
             Some d \<Rightarrow> Inr d
           | None \<Rightarrow> Inl (RuntimeError [Lit ''Unsupported dtype''])))
   \<and> (map_of dtype_table (op_dtype B tr (node self)) = None
        \<longleftrightarrow> op_dtype B tr (node self) < 2 \<or> 11 < op_dtype B tr (node self))"
proof (intro conjI impI)
  show "Tensor_dtype np B tr self =
     (if op_dtype B tr (node self) = 2 then np_getattr np ''bool''
      else (case map_of dtype_table (op_dtype B tr (node self)) of
              Some d \<Rightarrow> Inr d
            | None \<Rightarrow> Inl (RuntimeError [Lit ''Unsupported dtype''])))"
    by (rule Tensor_dtype_by_table)
  show "Tensor_dtype np B tr self =
          (case map_of dtype_table (op_dtype B tr (node self)) of
             Some d \<Rightarrow> Inr d
           | None \<Rightarrow> Inl (RuntimeError [Lit ''Unsupported dtype'']))"
    if "np ''bool'' = Some np_bool"
    using that by (simp add: Tensor_dtype_by_table np_getattr_def dtype_table_def)
  show "map_of dtype_table (op_dtype B tr (node self)) = None
        \<longleftrightarrow> op_dtype B tr (node self) < 2 \<or> 11 < op_dtype B tr (node self)"
    by (simp add: dtype_table_def) arith
qed

theorem dtype_query_closed_table_witness:
  "[''bool'' \<mapsto> np_bool] ''bool'' = Some np_bool
   \<and> Tensor_dtype [''bool'' \<mapsto> np_bool]
        (spec_backend (\<lambda>shp dt. True) (\<lambda>tr c. []) (\<lambda>tr n. 2))
        [Parameter 0 [4, 5] np_bool] \<lparr>factory = 0, node = 0\<rparr> = Inr np_bool
   \<and> Tensor_dtype [''bool'' \<mapsto> np_bool]
        (spec_backend (\<lambda>shp dt. True) (\<lambda>tr c. []) (\<lambda>tr n. 4))
        [Parameter 0 [4, 5] float16] \<lparr>factory = 0, node = 0\<rparr> = Inr float16
   \<and> Tensor_dtype [''bool'' \<mapsto> np_bool]
        (spec_backend (\<lambda>shp dt. True) (\<lambda>tr c. []) (\<lambda>tr n. 1))
        [Parameter 0 [4, 5] float16] \<lparr>factory = 0, node = 0\<rparr> =
       Inl (RuntimeError [Lit ''Unsupported dtype''])"
proof -
  have np: "[''bool'' \<mapsto> np_bool] ''bool'' = Some np_bool"
    by simp
  have code: "op_dtype (spec_backend (\<lambda>shp dt. True) (\<lambda>tr c. []) (\<lambda>tr n. k)) tr' n' = k"
    for k tr' n'
    by (simp add: spec_backend_def)
  show ?thesis
    using np
      dtype_query_closed_table [of "[''bool'' \<mapsto> np_bool]"
        "spec_backend (\<lambda>shp dt. True) (\<lambda>tr c. []) (\<lambda>tr n. 2)"
        "[Parameter 0 [4, 5] np_bool]" "\<lparr>factory = 0, node = 0\<rparr>"]
      dtype_query_closed_table [of "[''bool'' \<mapsto> np_bool]"
        "spec_backend (\<lambda>shp dt. True) (\<lambda>tr c. []) (\<lambda>tr n. 4)"
        "[Parameter 0 [4, 5] float16]" "\<lparr>factory = 0, node = 0\<rparr>"]
      dtype_query_closed_table [of "[''bool'' \<mapsto> np_bool]"
        "spec_backend (\<lambda>shp dt. True) (\<lambda>tr c. []) (\<lambda>tr n. 1)"
        "[Parameter 0 [4, 5] float16]" "\<lparr>factory = 0, node = 0\<rparr>"]
    by (simp add: code dtype_table_def np_getattr_def)
qed

text \<open>
  Claim C4. On a handle of rank at least 2, \<^verbatim>\<open>T\<close> is to compute the axis order that
  swaps the last two axes and to emit one \<^verbatim>\<open>transpose\<close> operation with it. The code
  does compute that order, and then raises \<open>NameError\<close> at the call: no operation is
  emitted and no handle is returned.
\<close>

theorem transpose_computes_order_then_raises:
  assumes "2 \<le> length (Tensor_shape B tr self)"
  shows "swap_last_two (map int [0..<length (Tensor_shape B tr self)]) =
           Inr (map int [0..<length (Tensor_shape B tr self) - 2]
                @ [int (length (Tensor_shape B tr self)) - 1,
                   int (length (Tensor_shape B tr self)) - 2])
         \<and> Tensor_T B (tensor_globals B) self tr =
             (Inl (NameError ''_Tensor__generate_op''), tr)"
  using assms by (simp only: input_order_swapped T_rank_ge_2 simp_thms)

theorem transpose_computes_order_then_raises_witness:
  "2 \<le> length (Tensor_shape (spec_backend (\<lambda>shp dt. True) (\<lambda>tr c. []) (\<lambda>tr n. 4))
            [Parameter 0 [2, 3, 4, 5] float16] \<lparr>factory = 0, node = 0\<rparr>)
   \<and> swap_last_two (map int [0..<4]) = Inr [0, 1, 3, 2]
   \<and> Tensor_T (spec_backend (\<lambda>shp dt. True) (\<lambda>tr c. []) (\<lambda>tr n. 4))
        (tensor_globals (spec_backend (\<lambda>shp dt. True) (\<lambda>tr c. []) (\<lambda>tr n. 4)))
        \<lparr>factory = 0, node = 0\<rparr> [Parameter 0 [2, 3, 4, 5] float16] =
       (Inl (NameError ''_Tensor__generate_op''), [Parameter 0 [2, 3, 4, 5] float16])"
proof -
  have shp: "Tensor_shape (spec_backend (\<lambda>shp dt. True) (\<lambda>tr c. []) (\<lambda>tr n. 4))
            [Parameter 0 [2, 3, 4, 5] float16] \<lparr>factory = 0, node = 0\<rparr> = [2, 3, 4, 5]"
    using Tensor_shape_spec_parameter [of "\<lambda>shp dt. True" "\<lambda>tr c. []" "\<lambda>tr n. 4" "[]" 0
        "[2, 3, 4, 5]" float16 "[]" 0]
    by simp
  have rank: "2 \<le> length (Tensor_shape (spec_backend (\<lambda>shp dt. True) (\<lambda>tr c. []) (\<lambda>tr n. 4))
            [Parameter 0 [2, 3, 4, 5] float16] \<lparr>factory = 0, node = 0\<rparr>)"
    by (simp add: shp)
  have order: "swap_last_two (map int [0..<4]) = Inr [0, 1, 3, 2]"
    using swap_last_two_append [of "[0, 1]" 2 3] by (simp add: upt_rec)
  show ?thesis
    using rank order transpose_computes_order_then_raises [OF rank] by simp
qed

text \<open>
  Claim C5. \<^verbatim>\<open>len()\<close> is to return the product of the dimensions, and 1 on a handle
  of rank 0. In the code \<^verbatim>\<open>__len__\<close> on a handle of rank 0 returns the product of
  the empty list, which NumPy gives as the float \<^verbatim>\<open>1.0\<close>; \<^verbatim>\<open>len()\<close> accepts an
  integer only and raises \<open>TypeError\<close>.
\<close>

theorem len_rank0_raises_TypeError:
  assumes "op_shape_size B tr (node self) = 0"
  shows "Tensor_shape B tr self = []
         \<and> Tensor_len B tr self = np_float64 1
         \<and> len_Tensor B tr self =
             Inl (TypeError ''numpy.float64 object cannot be interpreted as an integer'')"
  using assms
  by (simp add: len_Tensor_def Tensor_len_def Tensor_shape_def np_product_def py_len_def)

theorem len_rank0_raises_TypeError_witness:
  "op_shape_size (spec_backend (\<lambda>shp dt. True) (\<lambda>tr c. []) (\<lambda>tr n. 4))
      [Parameter 0 [] float16] (node \<lparr>factory = 0, node = 0\<rparr>) = 0
   \<and> Tensor_len (spec_backend (\<lambda>shp dt. True) (\<lambda>tr c. []) (\<lambda>tr n. 4))
      [Parameter 0 [] float16] \<lparr>factory = 0, node = 0\<rparr> = np_float64 1
   \<and> len_Tensor (spec_backend (\<lambda>shp dt. True) (\<lambda>tr c. []) (\<lambda>tr n. 4))
      [Parameter 0 [] float16] \<lparr>factory = 0, node = 0\<rparr> =
        Inl (TypeError ''numpy.float64 object cannot be interpreted as an integer'')"
proof -
  have rank: "op_shape_size (spec_backend (\<lambda>shp dt. True) (\<lambda>tr c. []) (\<lambda>tr n. 4))
      [Parameter 0 [] float16] (node \<lparr>factory = 0, node = 0\<rparr>) = 0"
    by (simp add: spec_backend_def spec_node_shape_def)
  show ?thesis
    using rank len_rank0_raises_TypeError [OF rank] by simp
qed

text \<open>
  Claim C6. \<^verbatim>\<open>get_supported_ops\<close> is memoized: the first call, on the empty cache,
  returns the literal table and fills the cache with it; a call on a filled cache
  returns what the cache holds and leaves the cache as it is, so the call after the
  first returns the same table in the same order. The table has one entry named
  \<^verbatim>\<open>matmul\<close>, with 2 inputs, and one entry named \<^verbatim>\<open>clamp\<close>, with 1 input and the
  two parameter types float, float.
\<close>

theorem get_supported_ops_memoized:
  "fst (get_supported_ops (snd (get_supported_ops None))) = fst (get_supported_ops None)
   \<and> snd (get_supported_ops (snd (get_supported_ops None))) = snd (get_supported_ops None)
   \<and> fst (get_supported_ops None) = supported_ops
   \<and> snd (get_supported_ops None) = Some supported_ops
   \<and> get_supported_ops (Some t) = (t, Some t)
   \<and> filter (\<lambda>e. name e = ''matmul'') supported_ops =
         [\<lparr>name = ''matmul'', inputs = 2, parameters = []\<rparr>]
   \<and> filter (\<lambda>e. name e = ''clamp'') supported_ops =
         [\<lparr>name = ''clamp'', inputs = 1, parameters = [c_float, c_float]\<rparr>]"
  by (simp add: get_supported_ops_def supported_ops_def unary_def)

text \<open>
  Claim C7. For a valid pair of shape and dtype, \<^verbatim>\<open>create_tensor\<close> returns a handle
  whose \<^verbatim>\<open>shape\<close> property is the requested shape, read back through the rank and
  the per-axis queries; nodes appended to the graph later do not change it. The
  backend is the one modelled from the specification.
\<close>

theorem create_tensor_shape_roundtrip:
  assumes "valid shp dt"
  shows "create_tensor (spec_backend valid infer dc) f shp dt tr =
           (Inr \<lparr>factory = f, node = length tr\<rparr>, tr @ [Parameter f shp dt])
         \<and> Tensor_shape (spec_backend valid infer dc) (tr @ Parameter f shp dt # later)
             \<lparr>factory = f, node = length tr\<rparr> = shp"
proof
  show "create_tensor (spec_backend valid infer dc) f shp dt tr =
           (Inr \<lparr>factory = f, node = length tr\<rparr>, tr @ [Parameter f shp dt])"
    using assms by (simp add: create_tensor_def spec_backend_def Let_def)
  show "Tensor_shape (spec_backend valid infer dc) (tr @ Parameter f shp dt # later)
             \<lparr>factory = f, node = length tr\<rparr> = shp"
    by (rule Tensor_shape_spec_parameter)
qed

theorem create_tensor_shape_roundtrip_witness:
  "list_all (\<lambda>d. (0::int) < d) [2, 3, 4, 5]
   \<and> create_tensor (spec_backend (\<lambda>shp dt. list_all (\<lambda>d. 0 < d) shp) (\<lambda>tr c. []) (\<lambda>tr n. 4))
         7 [2, 3, 4, 5] float16 [] =
       (Inr \<lparr>factory = 7, node = 0\<rparr>, [Parameter 7 [2, 3, 4, 5] float16])
   \<and> Tensor_shape (spec_backend (\<lambda>shp dt. list_all (\<lambda>d. 0 < d) shp) (\<lambda>tr c. []) (\<lambda>tr n. 4))
         [Parameter 7 [2, 3, 4, 5] float16] \<lparr>factory = 7, node = 0\<rparr> = [2, 3, 4, 5]"
  using create_tensor_shape_roundtrip [of "\<lambda>shp dt. list_all (\<lambda>d. 0 < d) shp" "[2, 3, 4, 5]"
      float16 "\<lambda>tr c. []" "\<lambda>tr n. 4" 7 "[]" "[]"]
  by simp

text \<open>
  Claim C8. On a non-empty sequence of handles of one factory, \<^verbatim>\<open>__generate_op\<close>
  makes one call, of the method named \<^verbatim>\<open>op\<close> of that factory, with the nodes of the
  handles in their order, then the extra arguments in theirs; it returns a handle of
  that factory around the node the call returns, and an exception of the call as it is.
\<close>

theorem generate_op_dispatch:
  assumes "tensors \<noteq> []" and "\<forall>t\<in>set tensors. factory t = f"
  shows "generate_op B tensors op args kwargs tr =
     (case call_factory B tr (FactoryOp f op (map node tensors) args kwargs) of
        Inl e \<Rightarrow> Inl e
      | Inr n \<Rightarrow> Inr \<lparr>factory = f, node = n\<rparr>,
      tr @ [FactoryOp f op (map node tensors) args kwargs])"
  using assms by (rule generate_op_same_owner)

theorem generate_op_dispatch_witness:
  "[\<lparr>factory = 3, node = 0\<rparr>, \<lparr>factory = 3, node = 1\<rparr>] \<noteq> []
   \<and> factory \<lparr>factory = 3, node = 0\<rparr> = 3 \<and> factory \<lparr>factory = 3, node = 1\<rparr> = 3
   \<and> generate_op (spec_backend (\<lambda>shp dt. True) (\<lambda>tr c. []) (\<lambda>tr n. 4))
         [\<lparr>factory = 3, node = 0\<rparr>, \<lparr>factory = 3, node = 1\<rparr>] ''matmul'' [PyInt 7] []
         [Parameter 3 [2, 3] float16, Parameter 3 [3, 4] float16] =
       (Inr \<lparr>factory = 3, node = 2\<rparr>,
        [Parameter 3 [2, 3] float16, Parameter 3 [3, 4] float16,
         FactoryOp 3 ''matmul'' [0, 1] [PyInt 7] []])"
proof -
  have cf: "call_factory (spec_backend (\<lambda>shp dt. True) (\<lambda>tr c. []) (\<lambda>tr n. 4))
      [Parameter 3 [2, 3] float16, Parameter 3 [3, 4] float16]
      (FactoryOp 3 ''matmul'' [0, 1] [PyInt 7] []) = Inr 2"
    by (simp add: spec_backend_def)
  show ?thesis
    using cf generate_op_dispatch [of "[\<lparr>factory = 3, node = 0\<rparr>, \<lparr>factory = 3, node = 1\<rparr>]" 3
      "spec_backend (\<lambda>shp dt. True) (\<lambda>tr c. []) (\<lambda>tr n. 4)" "''matmul''" "[PyInt 7]" "[]"
      "[Parameter 3 [2, 3] float16, Parameter 3 [3, 4] float16]"]
    by simp
qed

text \<open>
  Claim C9. The three checks of \<^verbatim>\<open>QMatMul.run\<close> all test the shape of \<^verbatim>\<open>X\<close> against
  \<^verbatim>\<open>(batch, inC)\<close>. So a call whose \<^verbatim>\<open>X\<close> begins with these two extents raises none
  of the three shape errors, whatever the shapes of \<^verbatim>\<open>W\<close> and \<^verbatim>\<open>scale\<close>: its result
  is that of \<^verbatim>\<open>super().run(X, (W, scale))\<close>.
\<close>

theorem QMatMul_run_checks_only_X:
  assumes "shape X = batch self # inC self # rest"
  shows "QMatMul_run super_run self X W scale = super_run X (W, scale)"
  by (simp add: QMatMul_run_def assms dims_are_expected)

theorem QMatMul_run_checks_only_X_witness:
  "shape \<lparr>shape = [2, 3], contents = ()\<rparr> =
     batch \<lparr>inC = 3, outC = 5, batch = 2\<rparr> # inC \<lparr>inC = 3, outC = 5, batch = 2\<rparr> # []
   \<and> QMatMul_run (\<lambda>X Ws. Inr (shape X)) \<lparr>inC = 3, outC = 5, batch = 2\<rparr>
         \<lparr>shape = [2, 3], contents = ()\<rparr> \<lparr>shape = [7], contents = ()\<rparr>
         \<lparr>shape = [], contents = ()\<rparr> = (Inr [2, 3] :: py_error + int list)"
  using QMatMul_run_checks_only_X [of "\<lparr>shape = [2, 3], contents = ()\<rparr>"
      "\<lparr>inC = 3, outC = 5, batch = 2\<rparr>" "[]" "\<lambda>X Ws. Inr (shape X)"
      "\<lparr>shape = [7], contents = ()\<rparr>" "\<lparr>shape = [], contents = ()\<rparr>"]
  by simp

text \<open>
  Claim C10. Every operator is to leave its operands as they are and to return a
  freshly constructed handle. In the code no operator returns a handle: each of the
  eight that call \<^verbatim>\<open>__generate_op\<close> at once raises \<open>NameError\<close>, and \<^verbatim>\<open>T\<close> raises
  \<open>IndexError\<close> below rank 2 and \<open>NameError\<close> from rank 2 on. None of them makes a
  foreign call, and the operands, which are values here, are not touched.
\<close>

theorem operators_return_no_handle:
  "Tensor_add (tensor_globals B) a b tr = (Inl (NameError ''_Tensor__generate_op''), tr)
   \<and> Tensor_sub (tensor_globals B) a b tr = (Inl (NameError ''_Tensor__generate_op''), tr)
   \<and> Tensor_mul (tensor_globals B) a b tr = (Inl (NameError ''_Tensor__generate_op''), tr)
   \<and> Tensor_truediv (tensor_globals B) a b tr = (Inl (NameError ''_Tensor__generate_op''), tr)
   \<and> Tensor_matmul (tensor_globals B) a b tr = (Inl (NameError ''_Tensor__generate_op''), tr)
   \<and> Tensor_neg (tensor_globals B) a tr = (Inl (NameError ''_Tensor__generate_op''), tr)
   \<and> Tensor_squeeze (tensor_globals B) a tr = (Inl (NameError ''_Tensor__generate_op''), tr)
   \<and> Tensor_unsqueeze (tensor_globals B) a axis tr =
        (Inl (NameError ''_Tensor__generate_op''), tr)
   \<and> Tensor_T B (tensor_globals B) a tr =
        (Inl (if length (Tensor_shape B tr a) < 2 then IndexError
              else NameError ''_Tensor__generate_op''), tr)"
  by (simp add: binary_NameError unary_NameError T_rank_ge_2 T_rank_lt_2)

end
